theory Spec2Isabelle
  imports Main "HOL-Library.List_Lexorder"
begin

section \<open>Python values and exceptions used by \<open>briefcase/integrations/xcode.py\<close>\<close>

text \<open>
  The module shells out to \<open>xcodebuild\<close> and \<open>xcrun simctl\<close> through
  \<open>sub.check_output\<close> and inspects the text or JSON that comes back. A call of
  \<open>check_output\<close> either returns the captured standard output or raises; its outcome is
  a value of \<open>exn + string\<close>. Every exception of the source, the implicit ones of
  subscripting, iteration and \<open>int()\<close> included, is a value of \<open>exn\<close>.
  \<open>CalledProcessError\<close> is what \<open>check_output\<close> raises when the command ran and
  exited non-zero, \<open>FileNotFoundError\<close> what it raises when the command cannot be
  started. A Python string is a list of characters; a character is a code point below 256.
\<close>

datatype exn =
    CalledProcessError
  | FileNotFoundError
  | JSONDecodeError
  | IndexError
  | KeyError
  | ValueError
  | TypeError
  | AttributeError
  | BriefcaseCommandError string

text \<open>The enumeration \<open>DeviceState\<close> with the numbers the source gives its members.\<close>

datatype DeviceState = SHUTDOWN | BOOTED | SHUTTING_DOWN | UNKNOWN

fun DeviceState_value :: "DeviceState \<Rightarrow> int" where
  "DeviceState_value SHUTDOWN = 0"
| "DeviceState_value BOOTED = 1"
| "DeviceState_value SHUTTING_DOWN = 10"
| "DeviceState_value UNKNOWN = 99"

subsection \<open>String operations\<close>

definition newline :: char where
  "newline = CHR 0x0A"

text \<open>\<open>s.startswith(p)\<close>\<close>

definition startswith :: "string \<Rightarrow> string \<Rightarrow> bool" where
  "startswith s p = (take (length p) s = p)"

text \<open>\<open>s.split(c)\<close> for a one-character separator: empty pieces are kept, and the
  result is never empty.\<close>

fun split_on :: "char \<Rightarrow> string \<Rightarrow> string list" where
  "split_on c [] = [[]]"
| "split_on c (x # xs) =
     (if x = c then [] # split_on c xs
      else (case split_on c xs of
              [] \<Rightarrow> [[x]]
            | w # ws \<Rightarrow> (x # w) # ws))"

text \<open>\<open>s.split(c, 1)\<close>: at most one split, at the first separator.\<close>

definition split_once :: "char \<Rightarrow> string \<Rightarrow> string list" where
  "split_once c s =
     (case dropWhile (\<lambda>x. x \<noteq> c) s of
        [] \<Rightarrow> [s]
      | _ # after \<Rightarrow> [takeWhile (\<lambda>x. x \<noteq> c) s, after])"

text \<open>\<open>xs[i]\<close> on a list, for an index that is not negative.\<close>

definition list_item :: "'a list \<Rightarrow> nat \<Rightarrow> exn + 'a" where
  "list_item xs i = (if i < length xs then Inr (xs ! i) else Inl IndexError)"

text \<open>\<open>sep.join(xs)\<close>\<close>

fun join :: "string \<Rightarrow> string list \<Rightarrow> string" where
  "join sep [] = []"
| "join sep [x] = x"
| "join sep (x # y # ys) = x @ sep @ join sep (y # ys)"

subsection \<open>\<open>int(s)\<close> and \<open>str(i)\<close>\<close>

text \<open>
  \<open>int(s)\<close> in base ten: white space around the literal is dropped, one sign may come
  first, and the digits may be grouped by single underscores. Anything else raises
  \<open>ValueError\<close>. The white space that \<open>int\<close> drops is, below code point 256, 9 to
  13, 32, 133 and 160; the separators 28 to 31, which \<open>str.isspace\<close> accepts, are not
  dropped and make the call raise. The number of digits is not limited.
\<close>

definition int_isspace :: "char \<Rightarrow> bool" where
  "int_isspace c = (of_char c \<in> {9::nat, 10, 11, 12, 13, 32, 133, 160})"

definition int_strip :: "string \<Rightarrow> string" where
  "int_strip s = rev (dropWhile int_isspace (rev (dropWhile int_isspace s)))"

definition digit_val :: "char \<Rightarrow> nat option" where
  "digit_val c =
     (let n = of_char c in if (48::nat) \<le> n \<and> n \<le> 57 then Some (n - 48) else None)"

fun py_digits :: "nat \<Rightarrow> string \<Rightarrow> nat option" where
  "py_digits acc [] = None"
| "py_digits acc (c # cs) =
     (case digit_val c of
        None \<Rightarrow> None
      | Some d \<Rightarrow>
          (case cs of
             [] \<Rightarrow> Some (10 * acc + d)
           | c' # cs' \<Rightarrow>
               if c' = CHR ''_'' then py_digits (10 * acc + d) cs'
               else py_digits (10 * acc + d) cs))"

definition py_int :: "string \<Rightarrow> exn + int" where
  "py_int s =
     (let t = int_strip s;
          neg = (t \<noteq> [] \<and> hd t = CHR ''-'');
          ds = (if t \<noteq> [] \<and> (hd t = CHR ''-'' \<or> hd t = CHR ''+'') then tl t else t)
      in case py_digits 0 ds of
           None \<Rightarrow> Inl ValueError
         | Some n \<Rightarrow> Inr (if neg then - int n else int n))"

text \<open>\<open>tuple(int(v) for v in pieces)\<close>: the first piece that does not parse raises.\<close>

fun ints_of :: "string list \<Rightarrow> exn + int list" where
  "ints_of [] = Inr []"
| "ints_of (v # vs) =
     (case py_int v of
        Inl e \<Rightarrow> Inl e
      | Inr i \<Rightarrow> (case ints_of vs of Inl e \<Rightarrow> Inl e | Inr r \<Rightarrow> Inr (i # r)))"

definition digit_char :: "nat \<Rightarrow> char" where
  "digit_char n = ''0123456789'' ! (n mod 10)"

fun str_nat :: "nat \<Rightarrow> string" where
  "str_nat n = (if n < 10 then [digit_char n] else str_nat (n div 10) @ [digit_char n])"

declare str_nat.simps [simp del]

definition str_int :: "int \<Rightarrow> string" where
  "str_int i = (if i < 0 then CHR ''-'' # str_nat (nat (- i)) else str_nat (nat i))"

subsection \<open>Tuple comparison\<close>

text \<open>
  \<open>a < b\<close> on tuples of integers: the first position where the two differ decides; when
  one is a prefix of the other, the shorter is the smaller.
\<close>

fun tuple_lt :: "int list \<Rightarrow> int list \<Rightarrow> bool" where
  "tuple_lt [] [] = False"
| "tuple_lt [] (y # ys) = True"
| "tuple_lt (x # xs) [] = False"
| "tuple_lt (x # xs) (y # ys) = (if x = y then tuple_lt xs ys else x < y)"

section \<open>\<open>ensure_xcode_is_installed\<close>\<close>

definition stars :: string where
  "stars = replicate 73 (CHR ''*'')"

text \<open>The text handed to \<open>print\<close> when the version cannot be determined.\<close>

definition version_warning :: string where
  "version_warning = concat (map (\<lambda>l. l @ [newline])
     ['''',
      stars,
      ''** WARNING: Unable to determine the version of Xcode that is installed **'',
      stars,
      '''',
      ''   Briefcase will proceed assume everything is OK, but if you'',
      ''   experience problems, this is almost certainly the cause of those'',
      ''   problems.'',
      '''',
      ''   Please report this as a bug at:'',
      '''',
      ''     https://github.com/beeware/briefcase/issues/'',
      '''',
      ''   In your report, please including the output from running:'',
      '''',
      ''     xcodebuild -version'',
      '''',
      ''   from the command prompt.'',
      '''',
      stars,
      ''''])"

definition xcode_not_installed :: string where
  "xcode_not_installed = concat (map (\<lambda>l. l @ [newline])
     ['''',
      ''Xcode is not installed.'',
      '''',
      ''You can install Xcode from the macOS App Store.''])"

definition version_too_low :: "int list \<Rightarrow> int list \<Rightarrow> string" where
  "version_too_low min_version version =
     ''Xcode '' @ join ''.'' (map str_int min_version) @ '' is required; ''
       @ join ''.'' (map str_int version) @ '' is installed. Please update Xcode.''"

text \<open>
  Lines 43 to 46: the first line of the output, its second piece between spaces, split
  on the dots, each piece through \<open>int\<close>, and two zeros appended.
\<close>

definition version_token :: "string \<Rightarrow> exn + string" where
  "version_token output =
     (case list_item (split_on newline output) 0 of
        Inl e \<Rightarrow> Inl e
      | Inr line \<Rightarrow> list_item (split_on CHR '' '' line) 1)"

definition xcode_version :: "string \<Rightarrow> exn + int list" where
  "xcode_version output =
     (case version_token output of
        Inl e \<Rightarrow> Inl e
      | Inr token \<Rightarrow>
          (case ints_of (split_on CHR ''.'' token) of
             Inl e \<Rightarrow> Inl e
           | Inr vs \<Rightarrow> Inr (vs @ [0, 0])))"

text \<open>
  The body of the outer \<open>try\<close>. The result pairs what the call raises or returns with
  the texts it printed. The inner \<open>try\<close> catches \<open>IndexError\<close> only, and then
  control falls through to the warning.
\<close>

definition xcode_check :: "int list option \<Rightarrow> string \<Rightarrow> (exn + unit) \<times> string list" where
  "xcode_check min_version output =
     (case min_version of
        None \<Rightarrow> (Inr (), [])
      | Some required \<Rightarrow>
          if startswith output ''Xcode '' then
            (case xcode_version output of
               Inr version \<Rightarrow>
                 if tuple_lt version required
                 then (Inl (BriefcaseCommandError (version_too_low required version)), [])
                 else (Inr (), [])
             | Inl e \<Rightarrow>
                 if e = IndexError then (Inr (), [version_warning]) else (Inl e, []))
          else (Inr (), [version_warning]))"

text \<open>
  The whole function: \<open>sub\<close> is the outcome of
  \<open>sub.check_output(['xcodebuild', '-version'], universal_newlines=True)\<close>. The outer
  handler turns \<open>CalledProcessError\<close>, and nothing else, into the error that Xcode is
  not installed.
\<close>

definition ensure_xcode_is_installed ::
    "int list option \<Rightarrow> exn + string \<Rightarrow> (exn + unit) \<times> string list" where
  "ensure_xcode_is_installed min_version sub =
     (case (case sub of
              Inl e \<Rightarrow> (Inl e, [])
            | Inr output \<Rightarrow> xcode_check min_version output) of
        (Inl e, printed) \<Rightarrow>
          if e = CalledProcessError
          then (Inl (BriefcaseCommandError xcode_not_installed), printed)
          else (Inl e, printed)
      | (Inr u, printed) \<Rightarrow> (Inr u, printed))"

section \<open>Decoded JSON\<close>

text \<open>
  What \<open>json.loads\<close> returns: \<open>None\<close>, a boolean, an integer, a string, a list, or a
  dictionary whose keys are strings. A dictionary is kept as the list of its items in
  insertion order; in a Python dictionary no key occurs twice. A JSON number with a
  fraction or an exponent (a Python \<open>float\<close>) is not represented: the listing of
  \<open>simctl\<close> carries none. The parser itself is a parameter \<open>loads\<close> of the
  functions below, of type \<open>string \<Rightarrow> exn + pyval\<close>.
\<close>

datatype pyval =
    PNone
  | PBool bool
  | PInt int
  | PStr string
  | PList "pyval list"
  | PDict "(string \<times> pyval) list"

text \<open>\<open>xs[i]\<close> for an integer index: a negative index counts from the end.\<close>

definition seq_item :: "'a list \<Rightarrow> int \<Rightarrow> exn + 'a" where
  "seq_item xs i =
     (let j = (if i < 0 then i + int (length xs) else i)
      in if j < 0 then Inl IndexError else list_item xs (nat j))"

text \<open>Lists and dictionaries cannot be hashed; every other decoded value can.\<close>

fun hashable :: "pyval \<Rightarrow> bool" where
  "hashable (PList xs) = False"
| "hashable (PDict kvs) = False"
| "hashable v = True"

text \<open>\<open>obj[key]\<close>\<close>

fun getitem :: "pyval \<Rightarrow> pyval \<Rightarrow> exn + pyval" where
  "getitem (PDict kvs) key =
     (if \<not> hashable key then Inl TypeError
      else (case key of
              PStr k \<Rightarrow> (case map_of kvs k of None \<Rightarrow> Inl KeyError | Some v \<Rightarrow> Inr v)
            | _ \<Rightarrow> Inl KeyError))"
| "getitem (PList xs) key =
     (case key of
        PInt i \<Rightarrow> seq_item xs i
      | PBool b \<Rightarrow> seq_item xs (if b then 1 else 0)
      | _ \<Rightarrow> Inl TypeError)"
| "getitem (PStr s) key =
     (case key of
        PInt i \<Rightarrow> map_sum id (\<lambda>c. PStr [c]) (seq_item s i)
      | PBool b \<Rightarrow> map_sum id (\<lambda>c. PStr [c]) (seq_item s (if b then 1 else 0))
      | _ \<Rightarrow> Inl TypeError)"
| "getitem v key = Inl TypeError"

text \<open>The truth value of an object, as \<open>if\<close> and \<open>and\<close> read it.\<close>

fun truthy :: "pyval \<Rightarrow> bool" where
  "truthy PNone = False"
| "truthy (PBool b) = b"
| "truthy (PInt i) = (i \<noteq> 0)"
| "truthy (PStr s) = (s \<noteq> [])"
| "truthy (PList xs) = (xs \<noteq> [])"
| "truthy (PDict kvs) = (kvs \<noteq> [])"

text \<open>\<open>for x in obj\<close>: a dictionary yields its keys, a string its characters.\<close>

fun py_iter :: "pyval \<Rightarrow> exn + pyval list" where
  "py_iter (PList xs) = Inr xs"
| "py_iter (PDict kvs) = Inr (map (\<lambda>kv. PStr (fst kv)) kvs)"
| "py_iter (PStr s) = Inr (map (\<lambda>c. PStr [c]) s)"
| "py_iter v = Inl TypeError"

text \<open>\<open>obj.items()\<close>, \<open>obj.startswith(p)\<close> and \<open>obj.split(' ', 1)\<close>: methods of
  \<open>dict\<close> and of \<open>str\<close> only.\<close>

fun py_items :: "pyval \<Rightarrow> exn + (string \<times> pyval) list" where
  "py_items (PDict kvs) = Inr kvs"
| "py_items v = Inl AttributeError"

fun py_startswith :: "pyval \<Rightarrow> string \<Rightarrow> exn + bool" where
  "py_startswith (PStr s) p = Inr (startswith s p)"
| "py_startswith v p = Inl AttributeError"

fun py_split_once :: "pyval \<Rightarrow> exn + string list" where
  "py_split_once (PStr s) = Inr (split_once CHR '' '' s)"
| "py_split_once v = Inl AttributeError"

subsection \<open>Building a dictionary\<close>

text \<open>
  Keys of a dictionary are compared by \<open>==\<close>, under which \<open>True\<close> is \<open>1\<close> and
  \<open>False\<close> is \<open>0\<close>.
\<close>

fun key_norm :: "pyval \<Rightarrow> pyval" where
  "key_norm (PBool b) = PInt (if b then 1 else 0)"
| "key_norm v = v"

definition key_eq :: "pyval \<Rightarrow> pyval \<Rightarrow> bool" where
  "key_eq a b = (key_norm a = key_norm b)"

text \<open>
  \<open>d[k] = v\<close> on a dictionary kept as the list of its items in insertion order: a key
  that is present keeps its place and gets the new value, a new key goes last.
\<close>

fun dict_set :: "('k \<Rightarrow> 'k \<Rightarrow> bool) \<Rightarrow> ('k \<times> 'v) list \<Rightarrow> 'k \<Rightarrow> 'v \<Rightarrow> ('k \<times> 'v) list" where
  "dict_set eq [] k v = [(k, v)]"
| "dict_set eq ((k', v') # kvs) k v =
     (if eq k' k then (k', v) # kvs else (k', v') # dict_set eq kvs k v)"

text \<open>
  A dictionary comprehension \<open>{key(x): value(x) for x in xs if cond(x)}\<close>: \<open>entry x\<close>
  is what one round computes, \<open>None\<close> when the condition rejects \<open>x\<close>; the first
  round that raises ends the comprehension.
\<close>

fun dict_comp ::
    "('k \<Rightarrow> 'k \<Rightarrow> bool) \<Rightarrow> ('a \<Rightarrow> exn + ('k \<times> 'v) option) \<Rightarrow> 'a list \<Rightarrow> ('k \<times> 'v) list
       \<Rightarrow> exn + ('k \<times> 'v) list" where
  "dict_comp eq entry [] acc = Inr acc"
| "dict_comp eq entry (x # xs) acc =
     (case entry x of
        Inl e \<Rightarrow> Inl e
      | Inr None \<Rightarrow> dict_comp eq entry xs acc
      | Inr (Some (k, v)) \<Rightarrow> dict_comp eq entry xs (dict_set eq acc k v))"

section \<open>\<open>get_simulators\<close>\<close>

definition simctl_failed :: string where
  "simctl_failed = ''Unable to run xcrun simctl.''"

text \<open>The handler both \<open>simctl\<close> functions end with: \<open>except subprocess.CalledProcessError\<close>.\<close>

definition simctl_handler :: "exn + 'a \<Rightarrow> exn + 'a" where
  "simctl_handler r =
     (case r of
        Inl e \<Rightarrow> if e = CalledProcessError then Inl (BriefcaseCommandError simctl_failed) else Inl e
      | Inr v \<Rightarrow> Inr v)"

text \<open>
  One round of the comprehension of lines 112 to 117: the condition
  \<open>runtime['name'].startswith('{os_name} ') and runtime['isAvailable']\<close>, then the key
  \<open>runtime['name'].split(' ', 1)[1]\<close>, then the value \<open>runtime['identifier']\<close>.
\<close>

definition runtime_entry :: "string \<Rightarrow> pyval \<Rightarrow> exn + (string \<times> pyval) option" where
  "runtime_entry os_name runtime =
     (case getitem runtime (PStr ''name'') of
        Inl e \<Rightarrow> Inl e
      | Inr name \<Rightarrow>
     (case py_startswith name (os_name @ '' '') of
        Inl e \<Rightarrow> Inl e
      | Inr matches \<Rightarrow>
     if \<not> matches then Inr None else
     (case getitem runtime (PStr ''isAvailable'') of
        Inl e \<Rightarrow> Inl e
      | Inr available \<Rightarrow>
     if \<not> truthy available then Inr None else
     (case getitem runtime (PStr ''name'') of
        Inl e \<Rightarrow> Inl e
      | Inr name' \<Rightarrow>
     (case py_split_once name' of
        Inl e \<Rightarrow> Inl e
      | Inr parts \<Rightarrow>
     (case list_item parts 1 of
        Inl e \<Rightarrow> Inl e
      | Inr version \<Rightarrow>
     (case getitem runtime (PStr ''identifier'') of
        Inl e \<Rightarrow> Inl e
      | Inr identifier \<Rightarrow> Inr (Some (version, identifier)))))))))"

text \<open>
  One round of the inner comprehension of lines 120 to 124: the condition
  \<open>device['isAvailable']\<close>, the key \<open>device['udid']\<close>, the value \<open>device['name']\<close>;
  storing under a key that cannot be hashed raises \<open>TypeError\<close>.
\<close>

definition device_entry :: "pyval \<Rightarrow> exn + (pyval \<times> pyval) option" where
  "device_entry device =
     (case getitem device (PStr ''isAvailable'') of
        Inl e \<Rightarrow> Inl e
      | Inr available \<Rightarrow>
     if \<not> truthy available then Inr None else
     (case getitem device (PStr ''udid'') of
        Inl e \<Rightarrow> Inl e
      | Inr udid \<Rightarrow>
     (case getitem device (PStr ''name'') of
        Inl e \<Rightarrow> Inl e
      | Inr name \<Rightarrow>
     if hashable udid then Inr (Some (udid, name)) else Inl TypeError)))"

text \<open>
  One round of the outer comprehension of lines 119 to 126, for one item
  \<open>(version, identifier)\<close> of \<open>os_versions\<close>: the devices are looked up as
  \<open>simctl_data['devices'][identifier]\<close>.
\<close>

definition simulator_entry ::
    "pyval \<Rightarrow> string \<times> pyval \<Rightarrow> exn + (string \<times> (pyval \<times> pyval) list) option" where
  "simulator_entry simctl_data item =
     (case getitem simctl_data (PStr ''devices'') of
        Inl e \<Rightarrow> Inl e
      | Inr all_devices \<Rightarrow>
     (case getitem all_devices (snd item) of
        Inl e \<Rightarrow> Inl e
      | Inr devices \<Rightarrow>
     (case py_iter devices of
        Inl e \<Rightarrow> Inl e
      | Inr ds \<Rightarrow>
     (case dict_comp key_eq device_entry ds [] of
        Inl e \<Rightarrow> Inl e
      | Inr inner \<Rightarrow> Inr (Some (fst item, inner))))))"

text \<open>
  The body of the \<open>try\<close>, from the output of
  \<open>xcrun simctl list -j\<close> on, and the function: \<open>sub\<close> is the outcome of
  \<open>check_output\<close>.
\<close>

definition simulators_of ::
    "string \<Rightarrow> pyval \<Rightarrow> exn + (string \<times> (pyval \<times> pyval) list) list" where
  "simulators_of os_name simctl_data =
     (case getitem simctl_data (PStr ''runtimes'') of
        Inl e \<Rightarrow> Inl e
      | Inr runtimes \<Rightarrow>
     (case py_iter runtimes of
        Inl e \<Rightarrow> Inl e
      | Inr rs \<Rightarrow>
     (case dict_comp (=) (runtime_entry os_name) rs [] of
        Inl e \<Rightarrow> Inl e
      | Inr os_versions \<Rightarrow> dict_comp (=) (simulator_entry simctl_data) os_versions [])))"

definition get_simulators ::
    "string \<Rightarrow> (string \<Rightarrow> exn + pyval) \<Rightarrow> exn + string
       \<Rightarrow> exn + (string \<times> (pyval \<times> pyval) list) list" where
  "get_simulators os_name loads sub =
     simctl_handler
       (case sub of
          Inl e \<Rightarrow> Inl e
        | Inr output \<Rightarrow>
            (case loads output of
               Inl e \<Rightarrow> Inl e
             | Inr simctl_data \<Rightarrow> simulators_of os_name simctl_data))"

section \<open>\<open>get_device_state\<close>\<close>

definition device_not_found :: "string \<Rightarrow> string" where
  "device_not_found udid = ''Unable to determine status of device '' @ udid @ ''.''"

definition state_table :: "(string \<times> DeviceState) list" where
  "state_table =
     [(''Booted'', BOOTED), (''Shutting Down'', SHUTTING_DOWN), (''Shutdown'', SHUTDOWN)]"

text \<open>\<open>table.get(state, DeviceState.UNKNOWN)\<close>\<close>

definition state_get :: "pyval \<Rightarrow> exn + DeviceState" where
  "state_get state =
     (if \<not> hashable state then Inl TypeError
      else (case state of
              PStr s \<Rightarrow> (case map_of state_table s of None \<Rightarrow> Inr UNKNOWN | Some d \<Rightarrow> Inr d)
            | _ \<Rightarrow> Inr UNKNOWN))"

text \<open>
  The inner loop of lines 154 to 160 over one list of devices: \<open>Some\<close> is the value the
  function returns from inside the loop, \<open>None\<close> says the loop ran to its end.
\<close>

fun find_device :: "string \<Rightarrow> pyval list \<Rightarrow> exn + DeviceState option" where
  "find_device udid [] = Inr None"
| "find_device udid (device # rest) =
     (case getitem device (PStr ''udid'') of
        Inl e \<Rightarrow> Inl e
      | Inr u \<Rightarrow>
          if u = PStr udid then
            (case getitem device (PStr ''state'') of
               Inl e \<Rightarrow> Inl e
             | Inr state \<Rightarrow> map_sum id Some (state_get state))
          else find_device udid rest)"

text \<open>The outer loop of line 153 over the items of \<open>simctl_data['devices']\<close>.\<close>

fun scan_devices :: "string \<Rightarrow> (string \<times> pyval) list \<Rightarrow> exn + DeviceState option" where
  "scan_devices udid [] = Inr None"
| "scan_devices udid (item # rest) =
     (case py_iter (snd item) of
        Inl e \<Rightarrow> Inl e
      | Inr devices \<Rightarrow>
          (case find_device udid devices of
             Inl e \<Rightarrow> Inl e
           | Inr (Some state) \<Rightarrow> Inr (Some state)
           | Inr None \<Rightarrow> scan_devices udid rest))"

definition device_state_of :: "string \<Rightarrow> pyval \<Rightarrow> exn + DeviceState" where
  "device_state_of udid simctl_data =
     (case getitem simctl_data (PStr ''devices'') of
        Inl e \<Rightarrow> Inl e
      | Inr all_devices \<Rightarrow>
     (case py_items all_devices of
        Inl e \<Rightarrow> Inl e
      | Inr items \<Rightarrow>
     (case scan_devices udid items of
        Inl e \<Rightarrow> Inl e
      | Inr (Some state) \<Rightarrow> Inr state
      | Inr None \<Rightarrow> Inl (BriefcaseCommandError (device_not_found udid)))))"

definition get_device_state ::
    "string \<Rightarrow> (string \<Rightarrow> exn + pyval) \<Rightarrow> exn + string \<Rightarrow> exn + DeviceState" where
  "get_device_state udid loads sub =
     simctl_handler
       (case sub of
          Inl e \<Rightarrow> Inl e
        | Inr output \<Rightarrow>
            (case loads output of
               Inl e \<Rightarrow> Inl e
             | Inr simctl_data \<Rightarrow> device_state_of udid simctl_data))"

section \<open>The listing as \<open>simctl\<close> documents it\<close>

text \<open>
  The statements below are about payloads of the documented shape: \<open>runtimes\<close> is an
  array of objects with a \<open>name\<close>, an \<open>identifier\<close> and an \<open>isAvailable\<close> flag, and
  \<open>devices\<close> maps a runtime identifier to an array of objects with a \<open>udid\<close>, a
  \<open>name\<close>, an \<open>isAvailable\<close> flag and a \<open>state\<close>. The decoders read such a payload
  into typed values and return \<open>None\<close> on any other; further keys are allowed.
\<close>

datatype runtime =
  Runtime (rt_name: string) (rt_identifier: string) (rt_isAvailable: bool)

datatype device =
  Device (dev_udid: string) (dev_name: string) (dev_isAvailable: bool) (dev_state: string)

fun decode_runtime :: "pyval \<Rightarrow> runtime option" where
  "decode_runtime (PDict kvs) =
     (case (map_of kvs ''name'', map_of kvs ''identifier'', map_of kvs ''isAvailable'') of
        (Some (PStr n), Some (PStr i), Some (PBool a)) \<Rightarrow> Some (Runtime n i a)
      | _ \<Rightarrow> None)"
| "decode_runtime v = None"

fun decode_device :: "pyval \<Rightarrow> device option" where
  "decode_device (PDict kvs) =
     (case (map_of kvs ''udid'', map_of kvs ''name'', map_of kvs ''isAvailable'',
            map_of kvs ''state'') of
        (Some (PStr u), Some (PStr n), Some (PBool a), Some (PStr s)) \<Rightarrow> Some (Device u n a s)
      | _ \<Rightarrow> None)"
| "decode_device v = None"

fun decode_list :: "(pyval \<Rightarrow> 'a option) \<Rightarrow> pyval \<Rightarrow> 'a list option" where
  "decode_list f (PList xs) = those (map f xs)"
| "decode_list f v = None"

fun decode_devices :: "pyval \<Rightarrow> (string \<times> device list) list option" where
  "decode_devices (PDict kvs) =
     those (map (\<lambda>kv. map_option (Pair (fst kv)) (decode_list decode_device (snd kv))) kvs)"
| "decode_devices v = None"

text \<open>The full listing of \<open>xcrun simctl list -j\<close>.\<close>

fun decode_listing :: "pyval \<Rightarrow> (runtime list \<times> (string \<times> device list) list) option" where
  "decode_listing (PDict items) =
     (case (map_of items ''runtimes'', map_of items ''devices'') of
        (Some r, Some d) \<Rightarrow>
          (case (decode_list decode_runtime r, decode_devices d) of
             (Some rs, Some dv) \<Rightarrow> Some (rs, dv)
           | _ \<Rightarrow> None)
      | _ \<Rightarrow> None)"
| "decode_listing v = None"

text \<open>The listing of \<open>xcrun simctl list devices -j udid\<close>: the devices only.\<close>

fun decode_device_listing :: "pyval \<Rightarrow> (string \<times> device list) list option" where
  "decode_device_listing (PDict items) =
     (case map_of items ''devices'' of Some d \<Rightarrow> decode_devices d | None \<Rightarrow> None)"
| "decode_device_listing v = None"

subsection \<open>What the specification says of a listing\<close>

text \<open>
  The definitions of this subsection follow the words of the specification, on the
  typed listing; they are what the functions translated from the code are compared with.
\<close>

text \<open>A runtime is kept when its name starts with the OS name and a space and it is
  available; its OS version is everything after the first space of the name.\<close>

definition retained :: "string \<Rightarrow> runtime \<Rightarrow> bool" where
  "retained os_name r = (startswith (rt_name r) (os_name @ '' '') \<and> rt_isAvailable r)"

definition os_version :: "runtime \<Rightarrow> string" where
  "os_version r = drop 1 (dropWhile (\<lambda>c. c \<noteq> CHR '' '') (rt_name r))"

text \<open>The devices listed under a runtime identifier, and of those the available ones
  as pairs of UDID and name.\<close>

definition devices_under :: "(string \<times> device list) list \<Rightarrow> string \<Rightarrow> device list" where
  "devices_under dv i = (case map_of dv i of None \<Rightarrow> [] | Some ds \<Rightarrow> ds)"

definition available_devices :: "device list \<Rightarrow> (string \<times> string) list" where
  "available_devices ds = map (\<lambda>d. (dev_udid d, dev_name d)) (filter dev_isAvailable ds)"

definition spec_simulators ::
    "string \<Rightarrow> runtime list \<Rightarrow> (string \<times> device list) list
       \<Rightarrow> (string \<times> (string \<times> string) list) list" where
  "spec_simulators os_name rs dv =
     map (\<lambda>r. (os_version r, available_devices (devices_under dv (rt_identifier r))))
       (filter (retained os_name) rs)"

text \<open>A mapping of strings to strings as the Python dictionary that holds it.\<close>

definition str_items :: "(string \<times> string) list \<Rightarrow> (pyval \<times> pyval) list" where
  "str_items kvs = map (\<lambda>kv. (PStr (fst kv), PStr (snd kv))) kvs"

definition as_result ::
    "(string \<times> (string \<times> string) list) list \<Rightarrow> (string \<times> (pyval \<times> pyval) list) list" where
  "as_result sims = map (\<lambda>kv. (fst kv, str_items (snd kv))) sims"

text \<open>The dictionary that storing the pairs one after the other builds.\<close>

definition dict_of :: "('k \<times> 'v) list \<Rightarrow> ('k \<times> 'v) list" where
  "dict_of kvs = foldl (\<lambda>acc kv. dict_set (=) acc (fst kv) (snd kv)) [] kvs"

text \<open>The fixed table of state labels, every other label being unknown.\<close>

definition spec_state :: "string \<Rightarrow> DeviceState" where
  "spec_state label =
     (if label = ''Booted'' then BOOTED
      else if label = ''Shutting Down'' then SHUTTING_DOWN
      else if label = ''Shutdown'' then SHUTDOWN
      else UNKNOWN)"

text \<open>Every device entry of a listing, in the order the runtimes list them.\<close>

definition all_devices :: "(string \<times> device list) list \<Rightarrow> device list" where
  "all_devices dv = concat (map snd dv)"

subsection \<open>Two listings\<close>

text \<open>A listing with one available iOS 14.0 runtime that holds one available device.\<close>

definition example_listing :: pyval where
  "example_listing =
     PDict [(''runtimes'', PList [
              PDict [(''name'', PStr ''iOS 14.0''),
                     (''identifier'', PStr ''com.apple.CoreSimulator.SimRuntime.iOS-14-0''),
                     (''isAvailable'', PBool True)]]),
            (''devices'', PDict [
              (''com.apple.CoreSimulator.SimRuntime.iOS-14-0'', PList [
                 PDict [(''udid'', PStr ''ABC''), (''name'', PStr ''iPhone 11''),
                        (''isAvailable'', PBool True), (''state'', PStr ''Booted'')]])])]"

text \<open>
  A listing with two available iOS runtimes, one of them holding an unavailable device
  only, an unavailable iOS runtime and a watchOS runtime, and no tvOS runtime.
\<close>

definition example_mixed :: pyval where
  "example_mixed =
     PDict [(''runtimes'', PList [
              PDict [(''name'', PStr ''iOS 14.0''), (''identifier'', PStr ''iOS-14-0''),
                     (''isAvailable'', PBool True)],
              PDict [(''name'', PStr ''iOS 13.2''), (''identifier'', PStr ''iOS-13-2''),
                     (''isAvailable'', PBool True)],
              PDict [(''name'', PStr ''iOS 12.4''), (''identifier'', PStr ''iOS-12-4''),
                     (''isAvailable'', PBool False)],
              PDict [(''name'', PStr ''watchOS 7.0''), (''identifier'', PStr ''watchOS-7-0''),
                     (''isAvailable'', PBool True)]]),
            (''devices'', PDict [
              (''iOS-14-0'', PList [
                 PDict [(''udid'', PStr ''ABC''), (''name'', PStr ''iPhone 11''),
                        (''isAvailable'', PBool True), (''state'', PStr ''Booted'')],
                 PDict [(''udid'', PStr ''DEF''), (''name'', PStr ''iPhone 8''),
                        (''isAvailable'', PBool False), (''state'', PStr ''Creating'')]]),
              (''iOS-13-2'', PList [
                 PDict [(''udid'', PStr ''GHI''), (''name'', PStr ''iPad Air''),
                        (''isAvailable'', PBool False), (''state'', PStr ''Shutdown'')]]),
              (''watchOS-7-0'', PList [])])]"

section \<open>Facts about the string operations\<close>

lemma split_on_not_Nil: "split_on c s \<noteq> []"
  by (induction s) (auto split: list.splits)

lemma split_on_no_sep: "c \<notin> set a \<Longrightarrow> split_on c a = [a]"
  by (induction a) auto

lemma split_on_append_sep: "c \<notin> set a \<Longrightarrow> split_on c (a @ c # b) = a # split_on c b"
  by (induction a) auto

lemma hd_split_on_append:
  "c \<notin> set a \<Longrightarrow> hd (split_on c (a @ r)) = a @ hd (split_on c r)"
  by (induction a) (auto split: list.splits simp: split_on_not_Nil)


section \<open>Properties of \<open>ensure_xcode_is_installed\<close>\<close>

text \<open>
  An output that starts with \<open>Xcode\<close> and a space always has a second piece on its
  first line, so the \<open>IndexError\<close> the inner \<open>try\<close> catches is never raised.
\<close>

lemma startswith_Xcode_token:
  assumes "startswith out ''Xcode ''"
  shows "\<exists>token. version_token out = Inr token"
proof -
  from assms obtain r where out: "out = ''Xcode '' @ r"
    unfolding startswith_def by (metis append_take_drop_id)
  have nl: "newline \<notin> set ''Xcode ''"
    by (simp add: newline_def)
  have "hd (split_on newline out) = ''Xcode '' @ hd (split_on newline r)"
    unfolding out using hd_split_on_append [OF nl] by simp
  moreover have "split_on CHR '' '' (''Xcode'' @ CHR '' '' # hd (split_on newline r))
      = ''Xcode'' # split_on CHR '' '' (hd (split_on newline r))"
    by (rule split_on_append_sep) simp
  ultimately have "split_on CHR '' '' (hd (split_on newline out))
      = ''Xcode'' # split_on CHR '' '' (hd (split_on newline r))"
    by simp
  then show ?thesis
    using split_on_not_Nil [of newline out]
      split_on_not_Nil [of "CHR '' ''" "hd (split_on newline r)"]
    by (cases "split_on newline out"; cases "split_on CHR '' '' (hd (split_on newline r))")
      (auto simp: version_token_def list_item_def)
qed

text \<open>
  The usual output: \<open>Xcode\<close>, a space, the dotted version, and then the end of the
  output, a new line or a space. The version token is the dotted version.
\<close>

lemma version_token_shape:
  assumes "CHR '' '' \<notin> set dotted" and "newline \<notin> set dotted"
      and "rest = [] \<or> hd rest = newline \<or> hd rest = CHR '' ''"
  shows "version_token (''Xcode '' @ dotted @ rest) = Inr dotted"
proof -
  define out where "out = ''Xcode '' @ dotted @ rest"
  define fl where "fl = hd (split_on newline rest)"
  obtain l ls where sp: "split_on newline out = l # ls"
    using split_on_not_Nil [of newline out] by (cases "split_on newline out") auto
  have nl: "newline \<notin> set (''Xcode '' @ dotted)"
    using assms(2) by (simp add: newline_def)
  have "hd (split_on newline out) = (''Xcode '' @ dotted) @ fl"
    unfolding out_def fl_def using hd_split_on_append [OF nl, of rest] by simp
  with sp have l: "l = ''Xcode'' @ CHR '' '' # (dotted @ fl)"
    by simp
  have fl: "fl = [] \<or> (\<exists>x. fl = CHR '' '' # x)"
    unfolding fl_def using assms(3) split_on_not_Nil [of newline "tl rest"]
    by (cases rest) (auto simp: newline_def split: list.splits)
  have "split_on CHR '' '' l = ''Xcode'' # split_on CHR '' '' (dotted @ fl)"
    unfolding l by (rule split_on_append_sep) simp
  moreover have "\<exists>ws. split_on CHR '' '' (dotted @ fl) = dotted # ws"
    using fl split_on_no_sep [OF assms(1)] split_on_append_sep [OF assms(1)] by auto
  ultimately obtain ws where "split_on CHR '' '' l = ''Xcode'' # dotted # ws"
    by auto
  then have "version_token out = Inr dotted"
    by (simp add: version_token_def list_item_def sp)
  then show ?thesis
    by (simp only: out_def)
qed

lemma ints_of_error: "ints_of ps = Inl e \<Longrightarrow> e = ValueError"
  by (induction ps) (auto simp: py_int_def Let_def split: sum.splits option.splits)

lemma version_token_error: "version_token out = Inl e \<Longrightarrow> e = IndexError"
  by (auto simp: version_token_def list_item_def split: sum.splits if_splits)

lemma xcode_version_no_IndexError:
  assumes "startswith out ''Xcode ''"
  shows "xcode_version out \<noteq> Inl IndexError"
proof -
  from startswith_Xcode_token [OF assms] obtain token where t: "version_token out = Inr token"
    by blast
  show ?thesis
    by (auto simp: xcode_version_def t split: sum.splits dest: ints_of_error)
qed

text \<open>A file separator after the digits is not white space for \<open>int\<close>: the piece
  does not parse, and the call raises.\<close>

lemma separator_is_not_stripped:
  "py_int (''11'' @ [CHR 0x1C]) = Inl ValueError
   \<and> py_int (CHR 0x1F # ''5'') = Inl ValueError
   \<and> py_int (''11'' @ [CHR 0x09]) = Inr 11
   \<and> ensure_xcode_is_installed (Some [11]) (Inr (''Xcode 11'' @ [CHR 0x1C])) = (Inl ValueError, [])"
  by code_simp

text \<open>The part of the soft failure that the code does have: without the prefix, the
  warning is printed and the call returns.\<close>

lemma no_prefix_warns:
  "\<not> startswith out ''Xcode '' \<Longrightarrow>
     ensure_xcode_is_installed (Some m) (Inr out) = (Inr (), [version_warning])"
  by (simp add: ensure_xcode_is_installed_def xcode_check_def)

text \<open>A piece of the version that \<open>int\<close> rejects: the \<open>ValueError\<close> leaves the
  function, and nothing is printed.\<close>

lemma bad_integer_raises:
  assumes "startswith out ''Xcode ''"
      and "version_token out = Inr token"
      and "ints_of (split_on CHR ''.'' token) = Inl e"
  shows "ensure_xcode_is_installed (Some m) (Inr out) = (Inl ValueError, [])"
proof -
  from assms(3) have "e = ValueError"
    by (rule ints_of_error)
  with assms show ?thesis
    by (simp add: ensure_xcode_is_installed_def xcode_check_def xcode_version_def)
qed


text \<open>
  C1. With a minimum version given, an output without the prefix \<open>Xcode\<close> is a soft
  failure (lemma \<open>no_prefix_warns\<close>), but a version piece that is not an integer is
  not: for the output \<open>Xcode 11.2.1-beta\<close> the call of \<open>int\<close> on \<open>1-beta\<close> raises
  \<open>ValueError\<close>, which neither handler catches, so the error leaves the function and
  no warning is printed.
\<close>

theorem non_numeric_version_raises_ValueError:
  "ensure_xcode_is_installed (Some [11, 2, 1]) (Inr ''Xcode 11.2.1-beta'') = (Inl ValueError, [])"
  by code_simp

text \<open>
  C2, as the code has it. When \<open>check_output\<close> raises \<open>CalledProcessError\<close> (the
  command ran and exited non-zero), the call fails with the error that Xcode is not
  installed, whatever the minimum version, and so never with a parsing error; any other
  exception of \<open>check_output\<close>, such as the one for a command that cannot be started,
  is not caught and leaves the function as it is.
\<close>

theorem failed_version_command:
  "ensure_xcode_is_installed min_version (Inl e) =
     (Inl (if e = CalledProcessError then BriefcaseCommandError xcode_not_installed else e), [])"
  by (simp add: ensure_xcode_is_installed_def)

text \<open>
  C2 as stated fails for a command that cannot be executed: \<open>check_output\<close> then raises
  \<open>FileNotFoundError\<close>, and that is what the caller sees.
\<close>

theorem command_not_found_counterexample:
  "ensure_xcode_is_installed None (Inl FileNotFoundError) = (Inl FileNotFoundError, [])
   \<and> ensure_xcode_is_installed None (Inl FileNotFoundError)
       \<noteq> (Inl (BriefcaseCommandError xcode_not_installed), [])"
  by (simp add: ensure_xcode_is_installed_def)



text \<open>
  C8. Without a minimum version, a command that exits zero makes the call return,
  with nothing printed, whatever the output is.
\<close>

theorem no_min_version_accepts_any_output:
  "ensure_xcode_is_installed None (Inr out) = (Inr (), [])"
  by (simp add: ensure_xcode_is_installed_def xcode_check_def)

text \<open>
  C10. Whenever the call raises a \<open>BriefcaseCommandError\<close> on an output of the
  command, the version was parsed to integers \<open>v\<close> and the message names, as the
  installed version, the dot-join of \<open>v\<close> followed by the two appended zeros. For the
  output \<open>Xcode 11.2.1\<close> and the minimum \<open>(11, 3)\<close> the message says that
  \<open>11.2.1.0.0\<close> is installed.
\<close>

theorem version_too_low_message:
  assumes "ensure_xcode_is_installed (Some m) (Inr out) = (Inl (BriefcaseCommandError msg), printed)"
  shows "(\<exists>token v. version_token out = Inr token
            \<and> ints_of (split_on CHR ''.'' token) = Inr v
            \<and> msg = ''Xcode '' @ join ''.'' (map str_int m) @ '' is required; ''
                  @ join ''.'' (map str_int (v @ [0, 0])) @ '' is installed. Please update Xcode.'')
       \<and> ensure_xcode_is_installed (Some [11, 3]) (Inr ''Xcode 11.2.1'') =
           (Inl (BriefcaseCommandError
              ''Xcode 11.3 is required; 11.2.1.0.0 is installed. Please update Xcode.''), [])"
proof -
  have ex: "ensure_xcode_is_installed (Some [11, 3]) (Inr ''Xcode 11.2.1'') =
      (Inl (BriefcaseCommandError
         ''Xcode 11.3 is required; 11.2.1.0.0 is installed. Please update Xcode.''), [])"
    by code_simp
  have "\<exists>token v. version_token out = Inr token
      \<and> ints_of (split_on CHR ''.'' token) = Inr v
      \<and> msg = version_too_low m (v @ [0, 0])"
    using assms
    by (auto simp: ensure_xcode_is_installed_def xcode_check_def xcode_version_def
        split: if_splits sum.splits dest: ints_of_error version_token_error)
  with ex show ?thesis
    by (simp add: version_too_low_def)
qed

theorem version_too_low_message_witness:
  "ensure_xcode_is_installed (Some [9, 1]) (Inr ''Xcode 9'') =
     (Inl (BriefcaseCommandError ''Xcode 9.1 is required; 9.0.0 is installed. Please update Xcode.''), [])
   \<and> (\<exists>token v. version_token ''Xcode 9'' = Inr token
         \<and> ints_of (split_on CHR ''.'' token) = Inr v
         \<and> ''Xcode 9.1 is required; 9.0.0 is installed. Please update Xcode.'' =
             ''Xcode '' @ join ''.'' (map str_int [9, 1]) @ '' is required; ''
               @ join ''.'' (map str_int (v @ [0, 0])) @ '' is installed. Please update Xcode.'')"
proof -
  have h: "ensure_xcode_is_installed (Some [9, 1]) (Inr ''Xcode 9'') =
      (Inl (BriefcaseCommandError ''Xcode 9.1 is required; 9.0.0 is installed. Please update Xcode.''), [])"
    by code_simp
  from version_too_low_message [OF h] h show ?thesis
    by blast
qed

section \<open>Facts about dictionaries\<close>

lemma those_map_Some:
  "those (map f xs) = Some ys \<Longrightarrow> list_all2 (\<lambda>x y. f x = Some y) xs ys"
  by (induction xs arbitrary: ys) (auto split: option.splits)

lemma dict_set_fresh: "k \<notin> fst ` set al \<Longrightarrow> dict_set (=) al k v = al @ [(k, v)]"
  by (induction al) auto

lemma map_of_dict_set: "map_of (dict_set (=) al k v) = (map_of al)(k \<mapsto> v)"
  by (induction al) (auto simp: fun_eq_iff)

lemma dict_set_keys:
  "map fst (dict_set (=) al k v) = (if k \<in> fst ` set al then map fst al else map fst al @ [k])"
  by (induction al) (auto simp: rev_image_eqI)

lemma foldl_dict_set_distinct:
  "distinct (map fst (acc @ kvs)) \<Longrightarrow>
     foldl (\<lambda>a kv. dict_set (=) a (fst kv) (snd kv)) acc kvs = acc @ kvs"
proof (induction kvs arbitrary: acc)
  case Nil
  then show ?case by simp
next
  case (Cons kv kvs)
  then have fresh: "fst kv \<notin> fst ` set acc"
    by auto
  from Cons.prems have "distinct (map fst ((acc @ [kv]) @ kvs))"
    by simp
  from Cons.IH [OF this] show ?case
    by (simp add: dict_set_fresh [OF fresh])
qed

lemma dict_of_distinct: "distinct (map fst kvs) \<Longrightarrow> dict_of kvs = kvs"
  using foldl_dict_set_distinct [of "[]" kvs] by (simp add: dict_of_def)

lemma foldl_dict_set_keys_distinct:
  "distinct (map fst acc) \<Longrightarrow>
     distinct (map fst (foldl (\<lambda>a kv. dict_set (=) a (fst kv) (snd kv)) acc kvs))"
  by (induction kvs arbitrary: acc) (auto simp: dict_set_keys)

lemma distinct_dict_of: "distinct (map fst (dict_of kvs))"
  by (simp add: dict_of_def foldl_dict_set_keys_distinct)

lemma map_of_foldl_dict_set:
  "map_of (foldl (\<lambda>a kv. dict_set (=) a (fst kv) (snd kv)) acc kvs) = map_of (rev kvs @ acc)"
  by (induction kvs arbitrary: acc) (auto simp: map_of_dict_set fun_eq_iff map_add_def split: option.splits)

lemma map_of_dict_of: "map_of (dict_of kvs) = map_of (rev kvs)"
  by (simp add: dict_of_def map_of_foldl_dict_set)

lemma dict_of_subset:
  assumes "kv \<in> set (dict_of kvs)"
  shows "kv \<in> set kvs"
proof -
  obtain k v where kv: "kv = (k, v)"
    by (cases kv)
  from assms distinct_dict_of [of kvs] have "map_of (dict_of kvs) k = Some v"
    by (simp add: kv)
  then have "map_of (rev kvs) k = Some v"
    by (simp add: map_of_dict_of)
  then show ?thesis
    by (auto simp: kv dest: map_of_SomeD)
qed

lemma dict_comp_all2:
  "list_all2 (\<lambda>x y. entry x = Inr (g y)) xs ys \<Longrightarrow>
     dict_comp eq entry xs acc =
       Inr (foldl (\<lambda>a kv. dict_set eq a (fst kv) (snd kv)) acc (List.map_filter g ys))"
  by (induction arbitrary: acc rule: list_all2_induct)
    (auto split: option.splits)

lemma key_eq_PStr: "key_eq (PStr a) (PStr b) \<longleftrightarrow> a = b"
  by (simp add: key_eq_def)

lemma dict_set_str_items:
  "dict_set key_eq (str_items al) (PStr k) (PStr v) = str_items (dict_set (=) al k v)"
  by (induction al) (auto simp: str_items_def key_eq_PStr)

lemma foldl_dict_set_str_items:
  "foldl (\<lambda>a kv. dict_set key_eq a (fst kv) (snd kv)) (str_items acc) (str_items kvs)
     = str_items (foldl (\<lambda>a kv. dict_set (=) a (fst kv) (snd kv)) acc kvs)"
proof (induction kvs arbitrary: acc)
  case Nil
  then show ?case by (simp add: str_items_def)
next
  case (Cons kv kvs)
  have "str_items (kv # kvs) = (PStr (fst kv), PStr (snd kv)) # str_items kvs"
    by (simp add: str_items_def)
  then show ?case
    using Cons.IH [of "dict_set (=) acc (fst kv) (snd kv)"]
    by (simp add: dict_set_str_items)
qed


lemma dict_set_map_val:
  "dict_set (=) (map (\<lambda>kv. (fst kv, f (snd kv))) al) k (f v)
     = map (\<lambda>kv. (fst kv, f (snd kv))) (dict_set (=) al k v)"
  by (induction al) auto

lemma foldl_dict_set_map_val:
  "foldl (\<lambda>a kv. dict_set (=) a (fst kv) (snd kv)) (map (\<lambda>kv. (fst kv, f (snd kv))) acc)
       (map (\<lambda>kv. (fst kv, f (snd kv))) kvs)
     = map (\<lambda>kv. (fst kv, f (snd kv))) (foldl (\<lambda>a kv. dict_set (=) a (fst kv) (snd kv)) acc kvs)"
proof (induction kvs arbitrary: acc)
  case Nil
  then show ?case by simp
next
  case (Cons kv kvs)
  show ?case
    using Cons.IH [of "dict_set (=) acc (fst kv) (snd kv)"] by (simp add: dict_set_map_val)
qed

lemma map_filter_if:
  "List.map_filter (\<lambda>x. if P x then Some (f x) else None) xs = map f (filter P xs)"
  by (induction xs) auto

section \<open>The code on payloads of the documented shape\<close>

lemma version_after_space:
  assumes "startswith n (os_name @ '' '')"
  shows "list_item (split_once CHR '' '' n) 1 = Inr (drop 1 (dropWhile (\<lambda>c. c \<noteq> CHR '' '') n))"
proof -
  from assms have "n = (os_name @ '' '') @ drop (length (os_name @ '' '')) n"
    unfolding startswith_def by (metis append_take_drop_id)
  then have "CHR '' '' \<in> set n"
    by (metis in_set_conv_decomp append.assoc append_Cons)
  then have "dropWhile (\<lambda>c. c \<noteq> CHR '' '') n \<noteq> []"
    by simp
  then show ?thesis
    by (cases "dropWhile (\<lambda>c. c \<noteq> CHR '' '') n") (auto simp: split_once_def list_item_def)
qed

lemma runtime_entry_decoded:
  assumes "decode_runtime r = Some R"
  shows "runtime_entry os_name r =
           Inr (if retained os_name R then Some (os_version R, PStr (rt_identifier R)) else None)"
proof -
  from assms obtain kvs where r: "r = PDict kvs"
    by (cases r) auto
  from assms have f: "map_of kvs ''name'' = Some (PStr (rt_name R))"
      "map_of kvs ''identifier'' = Some (PStr (rt_identifier R))"
      "map_of kvs ''isAvailable'' = Some (PBool (rt_isAvailable R))"
    unfolding r by (auto split: option.splits pyval.splits)
  show ?thesis
    using f version_after_space [of "rt_name R" os_name]
    by (auto simp: r runtime_entry_def retained_def os_version_def)
qed

lemma device_entry_decoded:
  assumes "decode_device d = Some D"
  shows "device_entry d =
           Inr (if dev_isAvailable D then Some (PStr (dev_udid D), PStr (dev_name D)) else None)"
proof -
  from assms obtain kvs where d: "d = PDict kvs"
    by (cases d) auto
  from assms have f: "map_of kvs ''udid'' = Some (PStr (dev_udid D))"
      "map_of kvs ''name'' = Some (PStr (dev_name D))"
      "map_of kvs ''isAvailable'' = Some (PBool (dev_isAvailable D))"
    unfolding d by (auto split: option.splits pyval.splits)
  show ?thesis
    using f by (auto simp: d device_entry_def)
qed

lemma decode_list_all2:
  assumes "decode_list f v = Some ys"
  shows "\<exists>xs. v = PList xs \<and> list_all2 (\<lambda>x y. f x = Some y) xs ys"
  using assms by (cases v) (auto dest: those_map_Some)

lemma inner_comprehension:
  assumes "decode_list decode_device d = Some ds"
  shows "\<exists>xs. py_iter d = Inr xs
           \<and> dict_comp key_eq device_entry xs [] = Inr (str_items (dict_of (available_devices ds)))"
proof -
  from decode_list_all2 [OF assms] obtain xs
    where d: "d = PList xs" and all2: "list_all2 (\<lambda>x y. decode_device x = Some y) xs ds"
    by blast
  let ?g = "\<lambda>D. if dev_isAvailable D then Some (PStr (dev_udid D), PStr (dev_name D)) else None"
  from all2 have "list_all2 (\<lambda>x y. device_entry x = Inr (?g y)) xs ds"
    by (rule list_all2_mono) (simp add: device_entry_decoded)
  from dict_comp_all2 [OF this, of key_eq "[]"]
  have "dict_comp key_eq device_entry xs [] =
      Inr (foldl (\<lambda>a kv. dict_set key_eq a (fst kv) (snd kv)) (str_items [])
             (str_items (available_devices ds)))"
    by (simp add: map_filter_if str_items_def available_devices_def comp_def)
  then show ?thesis
    by (simp add: d foldl_dict_set_str_items dict_of_def)
qed

lemma decode_devices_lookup:
  assumes "decode_devices (PDict kvs) = Some dv" and "map_of dv i = Some ds"
  shows "\<exists>d. map_of kvs i = Some d \<and> decode_list decode_device d = Some ds"
  using assms
proof (induction kvs arbitrary: dv)
  case Nil
  then show ?case by simp
next
  case (Cons kv kvs)
  then show ?case
    by (cases kv) (auto split: option.splits if_splits)
qed


lemma decode_listing_parts:
  assumes "decode_listing p = Some (rs, dv)"
  shows "\<exists>items r dkvs. p = PDict items
           \<and> map_of items ''runtimes'' = Some r \<and> decode_list decode_runtime r = Some rs
           \<and> map_of items ''devices'' = Some (PDict dkvs) \<and> decode_devices (PDict dkvs) = Some dv"
proof -
  from assms obtain items where p: "p = PDict items"
    by (cases p) auto
  from assms obtain r d where rd: "map_of items ''runtimes'' = Some r"
      "map_of items ''devices'' = Some d" "decode_list decode_runtime r = Some rs"
      "decode_devices d = Some dv"
    unfolding p by (auto split: option.splits)
  from rd(4) obtain dkvs where "d = PDict dkvs"
    by (cases d) auto
  with p rd show ?thesis
    by blast
qed

lemma simulator_entry_decoded:
  assumes "decode_listing p = Some (rs, dv)" and "map_of dv i = Some ds"
  shows "simulator_entry p (ver, PStr i) =
           Inr (Some (ver, str_items (dict_of (available_devices ds))))"
proof -
  from decode_listing_parts [OF assms(1)] obtain items dkvs
    where p: "p = PDict items" and dk: "map_of items ''devices'' = Some (PDict dkvs)"
      and dd: "decode_devices (PDict dkvs) = Some dv"
    by blast
  from decode_devices_lookup [OF dd assms(2)] obtain d
    where d: "map_of dkvs i = Some d" "decode_list decode_device d = Some ds"
    by blast
  from inner_comprehension [OF d(2)] obtain xs
    where xs: "py_iter d = Inr xs"
      "dict_comp key_eq device_entry xs [] = Inr (str_items (dict_of (available_devices ds)))"
    by blast
  show ?thesis
    by (simp add: simulator_entry_def p dk d xs)
qed

text \<open>
  What \<open>get_simulators\<close> computes on a payload of the documented shape, without any
  assumption on repeated versions or UDIDs: a later runtime of the same version replaces
  the identifier of an earlier one, and a later device of the same UDID the name.
\<close>

lemma simulators_of_decoded:
  assumes dec: "decode_listing p = Some (rs, dv)"
      and present: "\<forall>r\<in>set rs. retained os_name r \<longrightarrow> rt_identifier r \<in> dom (map_of dv)"
  shows "simulators_of os_name p =
           Inr (map (\<lambda>kv. (fst kv, str_items (dict_of (available_devices (devices_under dv (snd kv))))))
                  (dict_of (map (\<lambda>r. (os_version r, rt_identifier r)) (filter (retained os_name) rs))))"
proof -
  let ?pairs = "map (\<lambda>r. (os_version r, rt_identifier r)) (filter (retained os_name) rs)"
  let ?ov = "dict_of ?pairs"
  let ?h = "\<lambda>kv. (fst kv, PStr (snd kv))"
  let ?inner = "\<lambda>kv. (fst kv, str_items (dict_of (available_devices (devices_under dv (snd kv)))))"
  from decode_listing_parts [OF dec] obtain items r
    where p: "p = PDict items" and rk: "map_of items ''runtimes'' = Some r"
      and dr: "decode_list decode_runtime r = Some rs"
    by blast
  from decode_list_all2 [OF dr] obtain rts
    where r: "r = PList rts" and all2: "list_all2 (\<lambda>x y. decode_runtime x = Some y) rts rs"
    by blast
  let ?g = "\<lambda>R. if retained os_name R then Some (os_version R, PStr (rt_identifier R)) else None"
  from all2 have "list_all2 (\<lambda>x y. runtime_entry os_name x = Inr (?g y)) rts rs"
    by (rule list_all2_mono) (simp add: runtime_entry_decoded)
  from dict_comp_all2 [OF this, of "(=)" "[]"]
  have "dict_comp (=) (runtime_entry os_name) rts [] =
      Inr (foldl (\<lambda>a kv. dict_set (=) a (fst kv) (snd kv)) (map ?h []) (map ?h ?pairs))"
    by (simp add: map_filter_if comp_def)
  then have first: "dict_comp (=) (runtime_entry os_name) rts [] = Inr (map ?h ?ov)"
    by (simp only: foldl_dict_set_map_val dict_of_def)
  have "simulator_entry p (?h kv) = Inr (Some (?inner kv))" if "kv \<in> set ?ov" for kv
  proof -
    from dict_of_subset [OF that] obtain R where "R \<in> set rs" "retained os_name R"
        "snd kv = rt_identifier R"
      by auto
    with present obtain ds where ds: "map_of dv (snd kv) = Some ds"
      by fastforce
    from simulator_entry_decoded [OF dec ds, of "fst kv"] show ?thesis
      by (simp add: devices_under_def ds)
  qed
  then have "list_all2 (\<lambda>x y. simulator_entry p x = Inr (Some (?inner y))) (map ?h ?ov) ?ov"
    by (simp add: list_all2_map1 list_all2_same)
  from dict_comp_all2 [OF this, of "(=)" "[]"]
  have "dict_comp (=) (simulator_entry p) (map ?h ?ov) [] =
      Inr (foldl (\<lambda>a kv. dict_set (=) a (fst kv) (snd kv)) [] (map ?inner ?ov))"
    by (simp add: List.map_filter_def comp_def)
  moreover have "distinct (map fst ([] @ map ?inner ?ov))"
    using distinct_dict_of [of ?pairs] by (simp add: comp_def)
  from foldl_dict_set_distinct [OF this]
  have "foldl (\<lambda>a kv. dict_set (=) a (fst kv) (snd kv)) [] (map ?inner ?ov) = map ?inner ?ov"
    by simp
  ultimately have second: "dict_comp (=) (simulator_entry p) (map ?h ?ov) [] = Inr (map ?inner ?ov)"
    by simp
  have "getitem p (PStr ''runtimes'') = Inr r" and "py_iter r = Inr rts"
    by (simp_all add: p rk r)
  then show ?thesis
    by (simp add: simulators_of_def first second)
qed


section \<open>Properties of \<open>get_simulators\<close>\<close>

text \<open>
  C5. Take a payload of the documented shape in which every kept runtime has its
  identifier among the keys of \<open>devices\<close>, no two kept runtimes have the same OS
  version, and no two available devices of a kept runtime have the same UDID. For every
  OS name, \<open>get_simulators\<close> returns one entry per runtime whose name starts with
  the OS name and a space and whose \<open>isAvailable\<close> flag is true, keyed by what follows
  the first space of the name, and in each the UDID and name of exactly the devices listed
  under the runtime's identifier whose \<open>isAvailable\<close> flag is true. For the listing
  with one available iOS 14.0 runtime and one available device \<open>ABC\<close>, \<open>iPhone 11\<close>,
  the result for \<open>iOS\<close> is \<open>{'14.0': {'ABC': 'iPhone 11'}}\<close>.
\<close>

theorem get_simulators_available:
  assumes "loads out = Inr p"
      and "decode_listing p = Some (rs, dv)"
      and "\<forall>r\<in>set rs. retained os_name r \<longrightarrow> map_of dv (rt_identifier r) \<noteq> None"
      and "distinct (map os_version (filter (retained os_name) rs))"
      and "\<forall>r\<in>set rs. retained os_name r \<longrightarrow>
             distinct (map fst (available_devices (devices_under dv (rt_identifier r))))"
  shows "get_simulators os_name loads (Inr out) = Inr (as_result (spec_simulators os_name rs dv))
       \<and> get_simulators ''iOS'' (\<lambda>s. Inr example_listing) (Inr out) =
           Inr [(''14.0'', [(PStr ''ABC'', PStr ''iPhone 11'')])]"
proof -
  let ?pairs = "map (\<lambda>r. (os_version r, rt_identifier r)) (filter (retained os_name) rs)"
  from assms(3) have present: "\<forall>r\<in>set rs. retained os_name r \<longrightarrow> rt_identifier r \<in> dom (map_of dv)"
    by auto
  from assms(4) have "distinct (map fst ?pairs)"
    by (simp add: comp_def)
  then have ov: "dict_of ?pairs = ?pairs"
    by (rule dict_of_distinct)
  have "simulators_of os_name p = Inr (as_result (spec_simulators os_name rs dv))"
    unfolding simulators_of_decoded [OF assms(2) present] ov
    using assms(5)
    by (simp add: as_result_def spec_simulators_def comp_def dict_of_distinct)
  moreover have "get_simulators ''iOS'' (\<lambda>s. Inr example_listing) (Inr out) =
      Inr [(''14.0'', [(PStr ''ABC'', PStr ''iPhone 11'')])]"
    unfolding get_simulators_def by simp code_simp
  ultimately show ?thesis
    by (simp add: get_simulators_def simctl_handler_def assms(1))
qed

lemma example_mixed_decoded:
  "decode_listing example_mixed =
     Some ([Runtime ''iOS 14.0'' ''iOS-14-0'' True, Runtime ''iOS 13.2'' ''iOS-13-2'' True,
            Runtime ''iOS 12.4'' ''iOS-12-4'' False, Runtime ''watchOS 7.0'' ''watchOS-7-0'' True],
           [(''iOS-14-0'', [Device ''ABC'' ''iPhone 11'' True ''Booted'',
                            Device ''DEF'' ''iPhone 8'' False ''Creating'']),
            (''iOS-13-2'', [Device ''GHI'' ''iPad Air'' False ''Shutdown'']),
            (''watchOS-7-0'', [])])"
  by (simp add: example_mixed_def)

theorem get_simulators_available_witness:
  "get_simulators ''iOS'' (\<lambda>s. Inr example_mixed) (Inr []) =
     Inr [(''14.0'', [(PStr ''ABC'', PStr ''iPhone 11'')]), (''13.2'', [])]"
proof -
  let ?rs = "[Runtime ''iOS 14.0'' ''iOS-14-0'' True, Runtime ''iOS 13.2'' ''iOS-13-2'' True,
            Runtime ''iOS 12.4'' ''iOS-12-4'' False, Runtime ''watchOS 7.0'' ''watchOS-7-0'' True]"
  let ?dv = "[(''iOS-14-0'', [Device ''ABC'' ''iPhone 11'' True ''Booted'',
                            Device ''DEF'' ''iPhone 8'' False ''Creating'']),
            (''iOS-13-2'', [Device ''GHI'' ''iPad Air'' False ''Shutdown'']),
            (''watchOS-7-0'', [])]"
  have h1: "(\<lambda>s. Inr example_mixed) [] = Inr example_mixed"
    by simp
  have h3: "\<forall>r\<in>set ?rs. retained ''iOS'' r \<longrightarrow> map_of ?dv (rt_identifier r) \<noteq> None"
    by (simp add: retained_def startswith_def)
  have h4: "distinct (map os_version (filter (retained ''iOS'') ?rs))"
    by (simp add: retained_def startswith_def os_version_def)
  have h5: "\<forall>r\<in>set ?rs. retained ''iOS'' r \<longrightarrow>
      distinct (map fst (available_devices (devices_under ?dv (rt_identifier r))))"
    by (simp add: retained_def startswith_def available_devices_def devices_under_def)
  have "as_result (spec_simulators ''iOS'' ?rs ?dv) =
      [(''14.0'', [(PStr ''ABC'', PStr ''iPhone 11'')]), (''13.2'', [])]"
    by (simp add: as_result_def spec_simulators_def retained_def startswith_def os_version_def
        available_devices_def devices_under_def str_items_def)
  with get_simulators_available [OF h1 example_mixed_decoded h3 h4 h5] show ?thesis
    by simp
qed

text \<open>
  C7. For a payload of the documented shape with no runtime whose name starts with the
  OS name and a space, \<open>get_simulators\<close> returns the empty dictionary and raises
  nothing.
\<close>

theorem get_simulators_no_matching_runtime:
  assumes "loads out = Inr p"
      and "decode_listing p = Some (rs, dv)"
      and "\<forall>r\<in>set rs. \<not> startswith (rt_name r) (os_name @ '' '')"
  shows "get_simulators os_name loads (Inr out) = Inr []"
proof -
  from assms(3) have none: "filter (retained os_name) rs = []"
    by (simp add: retained_def filter_empty_conv)
  then have "\<forall>r\<in>set rs. retained os_name r \<longrightarrow> rt_identifier r \<in> dom (map_of dv)"
    by (simp add: filter_empty_conv)
  from simulators_of_decoded [OF assms(2) this] have "simulators_of os_name p = Inr []"
    by (simp add: none dict_of_def)
  then show ?thesis
    by (simp add: get_simulators_def simctl_handler_def assms(1))
qed

theorem get_simulators_no_matching_runtime_witness:
  "get_simulators ''tvOS'' (\<lambda>s. Inr example_mixed) (Inr []) = Inr []"
proof -
  have h1: "(\<lambda>s. Inr example_mixed) [] = Inr example_mixed"
    by simp
  show ?thesis
    by (rule get_simulators_no_matching_runtime [OF h1 example_mixed_decoded])
      (simp add: startswith_def)
qed

text \<open>
  C9. A kept runtime whose device list has no available device still has its OS version
  among the keys of the result, with an empty dictionary as value. (The payload is of
  the documented shape, every kept runtime has its identifier among the keys of
  \<open>devices\<close>, and kept runtimes of the same OS version have the same identifier.)
\<close>

theorem runtime_without_available_devices:
  assumes "loads out = Inr p"
      and "decode_listing p = Some (rs, dv)"
      and "\<forall>r'\<in>set rs. retained os_name r' \<longrightarrow> map_of dv (rt_identifier r') \<noteq> None"
      and "r \<in> set rs"
      and "retained os_name r"
      and "\<forall>d\<in>set (devices_under dv (rt_identifier r)). \<not> dev_isAvailable d"
      and "\<forall>r'\<in>set rs. retained os_name r' \<and> os_version r' = os_version r
             \<longrightarrow> rt_identifier r' = rt_identifier r"
  shows "\<exists>sims. get_simulators os_name loads (Inr out) = Inr sims
           \<and> map_of sims (os_version r) = Some []"
proof -
  let ?pairs = "map (\<lambda>r. (os_version r, rt_identifier r)) (filter (retained os_name) rs)"
  let ?inner = "\<lambda>i. str_items (dict_of (available_devices (devices_under dv i)))"
  let ?sims = "map (\<lambda>kv. (fst kv, ?inner (snd kv))) (dict_of ?pairs)"
  from assms(3) have present: "\<forall>r\<in>set rs. retained os_name r \<longrightarrow> rt_identifier r \<in> dom (map_of dv)"
    by auto
  have sims: "get_simulators os_name loads (Inr out) = Inr ?sims"
    by (simp add: get_simulators_def simctl_handler_def assms(1)
        simulators_of_decoded [OF assms(2) present])
  from assms(4,5) have "os_version r \<in> fst ` set (rev ?pairs)"
    by force
  then obtain i where i: "map_of (rev ?pairs) (os_version r) = Some i"
    by (metis domD dom_map_of_conv_image_fst)
  then have "(os_version r, i) \<in> set ?pairs"
    by (auto dest: map_of_SomeD)
  with assms(7) have "i = rt_identifier r"
    by auto
  with i have "map_of (dict_of ?pairs) (os_version r) = Some (rt_identifier r)"
    by (simp add: map_of_dict_of)
  then have "(os_version r, rt_identifier r) \<in> set (dict_of ?pairs)"
    by (rule map_of_SomeD)
  then have "(os_version r, ?inner (rt_identifier r)) \<in> set ?sims"
    by force
  moreover have "distinct (map fst ?sims)"
    using distinct_dict_of [of ?pairs] by (simp add: comp_def)
  ultimately have "map_of ?sims (os_version r) = Some (?inner (rt_identifier r))"
    by (simp only: map_of_eq_Some_iff)
  moreover from assms(6) have "available_devices (devices_under dv (rt_identifier r)) = []"
    by (simp add: available_devices_def filter_empty_conv)
  ultimately have "map_of ?sims (os_version r) = Some []"
    by (simp add: dict_of_def str_items_def)
  with sims show ?thesis
    by blast
qed

theorem runtime_without_available_devices_witness:
  "\<exists>sims. get_simulators ''iOS'' (\<lambda>s. Inr example_mixed) (Inr []) = Inr sims
     \<and> map_of sims ''13.2'' = Some []"
proof -
  let ?rs = "[Runtime ''iOS 14.0'' ''iOS-14-0'' True, Runtime ''iOS 13.2'' ''iOS-13-2'' True,
            Runtime ''iOS 12.4'' ''iOS-12-4'' False, Runtime ''watchOS 7.0'' ''watchOS-7-0'' True]"
  let ?dv = "[(''iOS-14-0'', [Device ''ABC'' ''iPhone 11'' True ''Booted'',
                            Device ''DEF'' ''iPhone 8'' False ''Creating'']),
            (''iOS-13-2'', [Device ''GHI'' ''iPad Air'' False ''Shutdown'']),
            (''watchOS-7-0'', [])]"
  let ?r = "Runtime ''iOS 13.2'' ''iOS-13-2'' True"
  have h1: "(\<lambda>s. Inr example_mixed) [] = Inr example_mixed"
    by simp
  have h3: "\<forall>r\<in>set ?rs. retained ''iOS'' r \<longrightarrow> map_of ?dv (rt_identifier r) \<noteq> None"
    by (simp add: retained_def startswith_def)
  have h4: "?r \<in> set ?rs"
    by simp
  have h5: "retained ''iOS'' ?r"
    by (simp add: retained_def startswith_def)
  have h6: "\<forall>d\<in>set (devices_under ?dv (rt_identifier ?r)). \<not> dev_isAvailable d"
    by (simp add: devices_under_def)
  have h7: "\<forall>r'\<in>set ?rs. retained ''iOS'' r' \<and> os_version r' = os_version ?r
      \<longrightarrow> rt_identifier r' = rt_identifier ?r"
    by (simp add: retained_def startswith_def os_version_def)
  from runtime_without_available_devices [OF h1 example_mixed_decoded h3 h4 h5 h6 h7]
  show ?thesis
    by (simp add: os_version_def)
qed

section \<open>Properties of \<open>get_device_state\<close>\<close>

text \<open>The table of the code, read at a string, is the table of the specification.\<close>

lemma state_get_label: "state_get (PStr label) = Inr (spec_state label)"
  by (simp add: state_get_def spec_state_def state_table_def)

lemma find_device_decoded:
  assumes "list_all2 (\<lambda>x y. decode_device x = Some y) xs ds"
  shows "find_device udid xs =
           Inr (map_option (\<lambda>d. spec_state (dev_state d)) (find (\<lambda>d. dev_udid d = udid) ds))"
  using assms
proof (induction rule: list_all2_induct)
  case Nil
  then show ?case by simp
next
  case (Cons x xs D ds)
  from Cons.hyps(1) obtain kvs where x: "x = PDict kvs"
    by (cases x) auto
  from Cons.hyps(1) have f: "map_of kvs ''udid'' = Some (PStr (dev_udid D))"
      "map_of kvs ''state'' = Some (PStr (dev_state D))"
    unfolding x by (auto split: option.splits pyval.splits)
  show ?case
    by (simp add: x f state_get_label Cons.IH)
qed

lemma find_append_option:
  "find P (xs @ ys) = (case find P xs of None \<Rightarrow> find P ys | Some x \<Rightarrow> Some x)"
  by (induction xs) auto

lemma scan_devices_decoded:
  assumes "decode_devices (PDict kvs) = Some dv"
  shows "scan_devices udid kvs =
           Inr (map_option (\<lambda>d. spec_state (dev_state d))
                  (find (\<lambda>d. dev_udid d = udid) (all_devices dv)))"
  using assms
proof (induction kvs arbitrary: dv)
  case Nil
  then show ?case by (simp add: all_devices_def)
next
  case (Cons kv kvs)
  from Cons.prems obtain ds dv' where d: "decode_list decode_device (snd kv) = Some ds"
      "decode_devices (PDict kvs) = Some dv'" "dv = (fst kv, ds) # dv'"
    by (auto split: option.splits)
  from decode_list_all2 [OF d(1)] obtain xs
    where xs: "snd kv = PList xs" "list_all2 (\<lambda>x y. decode_device x = Some y) xs ds"
    by blast
  show ?case
    by (cases "find (\<lambda>d. dev_udid d = udid) ds")
      (simp_all add: xs(1) find_device_decoded [OF xs(2)] Cons.IH [OF d(2)] d(3)
        all_devices_def find_append_option)
qed

text \<open>
  C4. For a payload of the documented shape, \<open>get_device_state\<close> fails with the error
  that the status of the device cannot be determined iff no device entry of any runtime
  has the given UDID; otherwise it returns the state of the first entry with that UDID,
  read through the fixed table: \<open>Booted\<close>, \<open>Shutting Down\<close> and \<open>Shutdown\<close> give
  their members of the enumeration, and every other label gives \<open>UNKNOWN\<close>, which is
  a result and not an error.
\<close>

theorem get_device_state_lookup:
  assumes "loads out = Inr p"
      and "decode_device_listing p = Some dv"
  shows "(get_device_state udid loads (Inr out) =
            Inl (BriefcaseCommandError (device_not_found udid))
          \<longleftrightarrow> udid \<notin> dev_udid ` set (all_devices dv))
       \<and> get_device_state udid loads (Inr out) =
           (case find (\<lambda>d. dev_udid d = udid) (all_devices dv) of
              None \<Rightarrow> Inl (BriefcaseCommandError (device_not_found udid))
            | Some d \<Rightarrow> Inr (spec_state (dev_state d)))"
proof -
  from assms(2) obtain items where p: "p = PDict items"
    by (cases p) auto
  from assms(2) obtain d where d: "map_of items ''devices'' = Some d" "decode_devices d = Some dv"
    unfolding p by (auto split: option.splits)
  from d(2) obtain kvs where kvs: "d = PDict kvs"
    by (cases d) auto
  have eq: "get_device_state udid loads (Inr out) =
      (case find (\<lambda>d. dev_udid d = udid) (all_devices dv) of
         None \<Rightarrow> Inl (BriefcaseCommandError (device_not_found udid))
       | Some d \<Rightarrow> Inr (spec_state (dev_state d)))"
    using scan_devices_decoded [OF d(2) [unfolded kvs], of udid]
    by (simp add: get_device_state_def simctl_handler_def assms(1) device_state_of_def p d(1) kvs
        split: option.splits)
  have "find (\<lambda>d. dev_udid d = udid) (all_devices dv) = None
      \<longleftrightarrow> udid \<notin> dev_udid ` set (all_devices dv)"
    by (auto simp: find_None_iff)
  with eq show ?thesis
    by (auto split: option.splits)
qed

theorem get_device_state_lookup_witness:
  "get_device_state ''ABC'' (\<lambda>s. Inr example_mixed) (Inr []) = Inr BOOTED
   \<and> get_device_state ''DEF'' (\<lambda>s. Inr example_mixed) (Inr []) = Inr UNKNOWN
   \<and> get_device_state ''ZZZ'' (\<lambda>s. Inr example_mixed) (Inr []) =
       Inl (BriefcaseCommandError ''Unable to determine status of device ZZZ.'')"
proof -
  have h1: "(\<lambda>s. Inr example_mixed) [] = Inr example_mixed"
    by simp
  have h2: "decode_device_listing example_mixed =
      Some [(''iOS-14-0'', [Device ''ABC'' ''iPhone 11'' True ''Booted'',
                            Device ''DEF'' ''iPhone 8'' False ''Creating'']),
            (''iOS-13-2'', [Device ''GHI'' ''iPad Air'' False ''Shutdown'']),
            (''watchOS-7-0'', [])]"
    by (simp add: example_mixed_def)
  from get_device_state_lookup [OF h1 h2, of "''ABC''"]
    get_device_state_lookup [OF h1 h2, of "''DEF''"]
    get_device_state_lookup [OF h1 h2, of "''ZZZ''"]
  show ?thesis
    by (simp add: all_devices_def spec_state_def device_not_found_def)
qed

text \<open>
  C6. When the listing command exits non-zero, that is when \<open>check_output\<close> raises
  \<open>CalledProcessError\<close>, both \<open>get_simulators\<close> and \<open>get_device_state\<close> fail
  with the error \<open>Unable to run xcrun simctl.\<close>
\<close>

theorem simctl_failure:
  "get_simulators os_name loads (Inl CalledProcessError) =
     Inl (BriefcaseCommandError ''Unable to run xcrun simctl.'')
   \<and> get_device_state udid loads (Inl CalledProcessError) =
       Inl (BriefcaseCommandError ''Unable to run xcrun simctl.'')"
  by (simp add: get_simulators_def get_device_state_def simctl_handler_def simctl_failed_def)

end
